theory Spec2Isabelle
  imports Main
begin

section \<open>Text\<close>

text \<open>
  Python strings are sequences of code points. The model uses \<open>string\<close> with one
  \<open>char\<close> per code point, so it covers documents whose characters lie below
  code point 256 (ASCII and Latin-1, which includes the non-breaking space of
  \<^verbatim>\<open>&nbsp;\<close>). In that range \<^verbatim>\<open>\d\<close> is exactly \<^verbatim>\<open>0-9\<close>.
\<close>

definition ord :: "char \<Rightarrow> nat" where
  "ord c = of_char c"

definition is_digit :: "char \<Rightarrow> bool" where
  "is_digit c = (48 \<le> ord c \<and> ord c \<le> 57)"

definition is_upper_AZ :: "char \<Rightarrow> bool" where
  "is_upper_AZ c = (65 \<le> ord c \<and> ord c \<le> 90)"

text \<open>\<^verbatim>\<open>str.isspace\<close> below code point 256; it is what \<^verbatim>\<open>strip()\<close>,
  \<^verbatim>\<open>split()\<close> and \<^verbatim>\<open>\s\<close> use.\<close>

definition is_space :: "char \<Rightarrow> bool" where
  "is_space c = (let n = ord c in
     (9 \<le> n \<and> n \<le> 13) \<or> (28 \<le> n \<and> n \<le> 32) \<or> n = 133 \<or> n = 160)"

definition strip :: "string \<Rightarrow> string" where
  "strip s = rev (dropWhile is_space (rev (dropWhile is_space s)))"

fun starts_with :: "string \<Rightarrow> string \<Rightarrow> bool" where
  "starts_with [] s = True"
| "starts_with (p # ps) [] = False"
| "starts_with (p # ps) (c # cs) = (p = c \<and> starts_with ps cs)"

text \<open>\<^verbatim>\<open>sub in s\<close> on strings: \<open>sub\<close> occurs as a contiguous piece of \<open>s\<close>.\<close>

fun contains :: "string \<Rightarrow> string \<Rightarrow> bool" where
  "contains sub [] = (sub = [])"
| "contains sub (c # cs) = (starts_with sub (c # cs) \<or> contains sub cs)"

text \<open>The value of a string of decimal digits.\<close>

definition int_of_digits :: "string \<Rightarrow> int" where
  "int_of_digits s = foldl (\<lambda>a c. 10 * a + int (ord c - 48)) 0 s"

datatype error =
    File_not_found | OS_error | Read_error | Regex_error | Value_error | Unbound_local_error

text \<open>
  \<^verbatim>\<open>int(s)\<close> on a non-empty string of decimal digits, as the score pattern captures
  it. The interpreter raises \<^verbatim>\<open>ValueError\<close> for a string with more digits than
  \<^verbatim>\<open>sys.get_int_max_str_digits()\<close>, which is 4300 unless configured; the limit 0
  switches the test off, and stands for the interpreters that have no such limit.
\<close>

definition py_int :: "nat \<Rightarrow> string \<Rightarrow> error + int" where
  "py_int max_str_digits s =
     (if 0 < max_str_digits \<and> max_str_digits < length s then Inl Value_error
      else Inr (int_of_digits s))"

subsection \<open>The two fixed patterns of the extractor\<close>

text \<open>
  \<^verbatim>\<open>\((\d+)\)\<close> tried at the start of \<open>s\<close>: an opening parenthesis, one or more
  digits, a closing parenthesis. The result is the captured digits and the text left
  after the match.
\<close>

fun score_at :: "string \<Rightarrow> (string \<times> string) option" where
  "score_at [] = None"
| "score_at (c # cs) =
     (if c = CHR ''('' then
        (let ds = takeWhile is_digit cs in
         case dropWhile is_digit cs of
           [] \<Rightarrow> None
         | r # rs \<Rightarrow> if ds \<noteq> [] \<and> r = CHR '')'' then Some (ds, rs) else None)
      else None)"

lemma score_at_shorter: "score_at s = Some (ds, rest) \<Longrightarrow> length rest < length s"
proof (cases s)
  case Nil
  assume "score_at s = Some (ds, rest)"
  with Nil show ?thesis by simp
next
  case (Cons c cs)
  assume a: "score_at s = Some (ds, rest)"
  have "length (dropWhile is_digit cs) \<le> length cs"
    by (rule length_dropWhile_le)
  with a Cons show ?thesis
    by (auto split: if_splits list.splits simp: Let_def)
qed

text \<open>\<^verbatim>\<open>re.findall(r'\((\d+)\)', s)\<close>: scan left to right; after a match go on
  behind it, otherwise one character further.\<close>

function findall_scores :: "string \<Rightarrow> string list" where
  "findall_scores [] = []"
| "findall_scores (c # cs) =
     (case score_at (c # cs) of
        Some (ds, rest) \<Rightarrow> ds # findall_scores rest
      | None \<Rightarrow> findall_scores cs)"
  by pat_completeness auto
termination
  by (relation "measure length") (auto simp del: score_at.simps dest: score_at_shorter)

text \<open>\<^verbatim>\<open>/teams/[A-Z]+/\<close> tried at the start of \<open>s\<close>, and searched anywhere in
  \<open>s\<close> as \<^verbatim>\<open>re.compile(...).search\<close> does.\<close>

definition team_path_at :: "string \<Rightarrow> bool" where
  "team_path_at s =
     (starts_with ''/teams/'' s \<and>
      (let r = drop 7 s in
       takeWhile is_upper_AZ r \<noteq> [] \<and>
       (case dropWhile is_upper_AZ r of [] \<Rightarrow> False | x # _ \<Rightarrow> x = CHR ''/'')))"

fun team_path_search :: "string \<Rightarrow> bool" where
  "team_path_search [] = False"
| "team_path_search (c # cs) = (team_path_at (c # cs) \<or> team_path_search cs)"

section \<open>The parsed document\<close>

text \<open>
  \<^verbatim>\<open>BeautifulSoup(file, 'html.parser')\<close> yields a tree. A node is a visible string
  (NavigableString, CData), a string that \<^verbatim>\<open>get_text\<close> of an enclosing tag leaves
  out (comments, declarations, the contents of script and style), or a tag with its
  name, the values of its \<^verbatim>\<open>class\<close> attribute (a list under this parser, empty when
  the attribute is absent), its other attributes and its children.
\<close>

datatype node =
    Str string
  | Hidden string
  | Tag string "string list" "(string \<times> string) list" "node list"

fun descendants :: "node \<Rightarrow> node list" where
  "descendants (Tag n cl at cs) = concat (map (\<lambda>c. c # descendants c) cs)"
| "descendants (Str s) = []"
| "descendants (Hidden s) = []"

fun strings :: "node \<Rightarrow> string list" where
  "strings (Str s) = [s]"
| "strings (Hidden s) = []"
| "strings (Tag n cl at cs) = concat (map strings cs)"

definition get_text :: "node \<Rightarrow> string" where
  "get_text e = concat (strings e)"

text \<open>\<^verbatim>\<open>get_text(strip=True)\<close>: every string is stripped, empty ones are dropped.\<close>

definition get_text_strip :: "node \<Rightarrow> string" where
  "get_text_strip e = concat (filter (\<lambda>s. s \<noteq> []) (map strip (strings e)))"

fun tag_name :: "node \<Rightarrow> string option" where
  "tag_name (Tag n cl at cs) = Some n"
| "tag_name _ = None"

fun tag_classes :: "node \<Rightarrow> string list" where
  "tag_classes (Tag n cl at cs) = cl"
| "tag_classes _ = []"

fun tag_attr :: "node \<Rightarrow> string \<Rightarrow> string option" where
  "tag_attr (Tag n cl at cs) k = map_of at k"
| "tag_attr _ k = None"

text \<open>\<^verbatim>\<open>find_all(names)\<close>: the descendant tags with one of the names, in document
  order.\<close>

definition find_all :: "string list \<Rightarrow> node \<Rightarrow> node list" where
  "find_all names e =
     filter (\<lambda>d. case tag_name d of None \<Rightarrow> False | Some n \<Rightarrow> n \<in> set names) (descendants e)"

text \<open>\<^verbatim>\<open>find('span', attrs={'tz': 'E'})\<close>.\<close>

definition find_time_span :: "node \<Rightarrow> node option" where
  "find_time_span e =
     (case filter (\<lambda>d. tag_attr d ''tz'' = Some ''E'') (find_all [''span''] e) of
        [] \<Rightarrow> None | d # _ \<Rightarrow> Some d)"

text \<open>\<^verbatim>\<open>find_all('a', href=re.compile(r'/teams/[A-Z]+/'))\<close>.\<close>

definition find_team_links :: "node \<Rightarrow> node list" where
  "find_team_links e =
     filter (\<lambda>d. case tag_attr d ''href'' of None \<Rightarrow> False | Some h \<Rightarrow> team_path_search h)
       (find_all [''a''] e)"

section \<open>Game records\<close>

record game_data =
  team1 :: "string option"
  team2 :: "string option"
  score1 :: "int option"
  score2 :: "int option"
  time :: "string option"
  game_type :: "string option"
  raw_html :: node
  text_content :: string

text \<open>The canonical extractor's record also carries the date of its section. The
  field \<open>raw_html\<close> holds the element itself; its rendering by \<^verbatim>\<open>str\<close> is not
  modelled.\<close>

record game = game_data +
  date :: string

text \<open>The scores of lines 63 to 69, from the strings that \<^verbatim>\<open>re.findall\<close> returns.
  The first conversion that raises ends the computation.\<close>

definition scores_of :: "nat \<Rightarrow> string list \<Rightarrow> error + int option \<times> int option" where
  "scores_of max_str_digits scores =
     (if length scores \<ge> 2 then
        (case py_int max_str_digits (scores ! 0) of
           Inl e \<Rightarrow> Inl e
         | Inr a \<Rightarrow>
             (case py_int max_str_digits (scores ! 1) of
                Inl e \<Rightarrow> Inl e
              | Inr b \<Rightarrow> Inr (Some a, Some b)))
      else if length scores = 1 then
        (case py_int max_str_digits (scores ! 0) of
           Inl e \<Rightarrow> Inl e
         | Inr a \<Rightarrow> Inr (Some a, None))
      else Inr (None, None))"

text \<open>Lines 41 to 71 of \<^verbatim>\<open>mlb_schedule_scraper.py\<close>: the record built from one
  game paragraph, nothing when fewer than two team links are found, or the error that a
  conversion of a score raises.\<close>

definition parse_game :: "nat \<Rightarrow> string \<Rightarrow> node \<Rightarrow> error + game option" where
  "parse_game max_str_digits current_date element =
     (let time_span = find_time_span element;
          tm = (case time_span of None \<Rightarrow> None | Some sp \<Rightarrow> Some (get_text_strip sp));
          team_links = find_team_links element
      in if length team_links \<ge> 2 then
           (let game_text = get_text element in
            case scores_of max_str_digits (findall_scores game_text) of
              Inl e \<Rightarrow> Inl e
            | Inr sc \<Rightarrow>
                Inr (Some \<lparr> team1 = Some (get_text_strip (team_links ! 0)),
                            team2 = Some (get_text_strip (team_links ! 1)),
                            score1 = fst sc, score2 = snd sc,
                            time = tm, game_type = None,
                            raw_html = element, text_content = get_text element,
                            date = current_date \<rparr>))
         else Inr None)"

definition todays_games :: string where
  "todays_games = ''Today'' @ [CHR 0x27] @ ''s Games''"

text \<open>Lines 29 to 33: the date context after a heading.\<close>

definition heading_date :: "string \<Rightarrow> node \<Rightarrow> string option \<Rightarrow> string option" where
  "heading_date today_str element current_date =
     (let date_text = get_text_strip element in
      if date_text = todays_games then Some today_str
      else if date_text \<noteq> [] \<and> contains '','' date_text \<and> contains ''2025'' date_text
        then Some date_text
      else current_date)"

text \<open>One round of the loop of line 27 on the pair of \<^verbatim>\<open>current_date\<close> and
  \<^verbatim>\<open>games\<close>. An empty date string is as false as \<^verbatim>\<open>None\<close> in line 35.\<close>

definition step ::
  "nat \<Rightarrow> string \<Rightarrow> string option \<times> game list \<Rightarrow> node
     \<Rightarrow> error + string option \<times> game list" where
  "step max_str_digits today_str st element =
     (let current_date = fst st; games = snd st in
      if tag_name element = Some ''h3'' then
        Inr (heading_date today_str element current_date, games)
      else if tag_name element = Some ''p'' \<and> ''game'' \<in> set (tag_classes element) then
        (case current_date of
           None \<Rightarrow> Inr st
         | Some d \<Rightarrow>
             if d = [] then Inr st
             else if contains ''(Spring)'' (get_text element) then Inr st
             else (case parse_game max_str_digits d element of
                     Inl e \<Rightarrow> Inl e
                   | Inr None \<Rightarrow> Inr st
                   | Inr (Some g) \<Rightarrow> Inr (current_date, games @ [g])))
      else Inr st)"

text \<open>The loop of line 27 over the elements found; an exception ends it.\<close>

fun scan ::
  "nat \<Rightarrow> string \<Rightarrow> string option \<times> game list \<Rightarrow> node list
     \<Rightarrow> error + string option \<times> game list" where
  "scan max_str_digits today_str st [] = Inr st"
| "scan max_str_digits today_str st (element # elements) =
     (case step max_str_digits today_str st element of
        Inl e \<Rightarrow> Inl e
      | Inr st' \<Rightarrow> scan max_str_digits today_str st' elements)"

text \<open>
  \<^verbatim>\<open>get_all_games_from_schedule\<close> on the parsed document: the list of line 73, or
  the exception that ended the loop. The string \<open>today_str\<close> is what line 24 computes
  from the clock, on a platform whose \<^verbatim>\<open>strftime\<close> knows \<^verbatim>\<open>%-d\<close> (the source
  names it in line 25), and \<open>max_str_digits\<close> is the interpreter's limit for
  \<^verbatim>\<open>int\<close>.
\<close>

definition get_all_games_from_schedule :: "nat \<Rightarrow> string \<Rightarrow> node \<Rightarrow> error + game list" where
  "get_all_games_from_schedule max_str_digits today_str soup =
     (case scan max_str_digits today_str (None, []) (find_all [''h3'', ''p''] soup) of
        Inl e \<Rightarrow> Inl e
      | Inr st \<Rightarrow> Inr (snd st))"

section \<open>Files, clock and console\<close>

text \<open>
  The scripts read and write local files, read the clock and print. A file has the
  modification time that \<^verbatim>\<open>os.path.getmtime\<close> reports and its text;
  \<open>writable\<close> says for which paths \<^verbatim>\<open>open(path, 'w')\<close> succeeds; \<open>now\<close> stamps
  a file that is written; \<open>today_str\<close> is the clock's date as line 24 of
  \<^verbatim>\<open>mlb_schedule_scraper.py\<close> renders it.
\<close>

record stored_file =
  mtime :: int
  data :: string

datatype message =
    Checking_for_updates
  | Rule_line
  | Html_file_not_found string
  | Html_file_info string int
  | Csv_file_info string int
  | Csv_is_up_to_date
  | Extracting_games
  | No_games_in_html
  | Extracted_games nat
  | Successfully_updated string string
  | Error_updating_csv
  | No_games_found_to_save
  | Saved_games nat string

record world =
  fs :: "string \<Rightarrow> stored_file option"
  writable :: "string \<Rightarrow> bool"
  now :: int
  today_str :: string
  stdout :: "message list"

definition print :: "message \<Rightarrow> world \<Rightarrow> world" where
  "print m w = w\<lparr>stdout := stdout w @ [m]\<rparr>"

text \<open>\<^verbatim>\<open>with open(path, 'w') as f: f.write(text)\<close>.\<close>

definition write_file :: "string \<Rightarrow> string \<Rightarrow> world \<Rightarrow> error + world" where
  "write_file path text w =
     (if writable w path
      then Inr (w\<lparr>fs := (fs w)(path \<mapsto> \<lparr>mtime = now w, data = text\<rparr>)\<rparr>)
      else Inl OS_error)"

text \<open>\<^verbatim>\<open>os.utime(path, (t, t))\<close>.\<close>

definition utime :: "string \<Rightarrow> int \<Rightarrow> world \<Rightarrow> error + world" where
  "utime path t w =
     (case fs w path of
        None \<Rightarrow> Inl File_not_found
      | Some f \<Rightarrow> Inr (w\<lparr>fs := (fs w)(path \<mapsto> f\<lparr>mtime := t\<rparr>)\<rparr>))"

text \<open>
  The library and the interpreter are taken as they are: the HTML parser (nothing when
  reading or decoding the file raises), the rendering of \<^verbatim>\<open>csv.DictWriter\<close> for a
  header and rows, \<^verbatim>\<open>json.dump\<close>, the limit of \<^verbatim>\<open>int\<close> on the digits of a
  string, and the timestamps for which
  \<^verbatim>\<open>datetime.fromtimestamp(t).strftime('%Y-%m-%d %H:%M:%S')\<close> returns; for any other
  timestamp (a year past 9999, or what the platform's \<^verbatim>\<open>localtime\<close> refuses) it
  raises.
\<close>

datatype cell = Cell_none | Cell_str string | Cell_int int

record libs =
  html_parser :: "string \<Rightarrow> node option"
  csv_writer :: "string list \<Rightarrow> cell list list \<Rightarrow> string"
  json_dump :: "game list \<Rightarrow> string"
  int_max_str_digits :: nat
  fromtimestamp_ok :: "int \<Rightarrow> bool"

text \<open>Lines 17 and 18: open the file and parse it.\<close>

definition load_soup :: "libs \<Rightarrow> world \<Rightarrow> string \<Rightarrow> error + node" where
  "load_soup L w path =
     (case fs w path of
        None \<Rightarrow> Inl File_not_found
      | Some f \<Rightarrow> (case html_parser L (data f) of
                    None \<Rightarrow> Inl Read_error
                  | Some soup \<Rightarrow> Inr soup))"

section \<open>Sink writers\<close>

text \<open>\<^verbatim>\<open><[^>]+>\<close> tried at the start of \<open>s\<close>; the result is the text behind the
  match.\<close>

fun markup_at :: "string \<Rightarrow> string option" where
  "markup_at [] = None"
| "markup_at (c # cs) =
     (if c = CHR ''<'' then
        (case dropWhile (\<lambda>x. x \<noteq> CHR ''>'') cs of
           [] \<Rightarrow> None
         | r # rs \<Rightarrow> if takeWhile (\<lambda>x. x \<noteq> CHR ''>'') cs \<noteq> [] then Some rs else None)
      else None)"

lemma markup_at_shorter: "markup_at s = Some rest \<Longrightarrow> length rest < length s"
proof (cases s)
  case Nil
  assume "markup_at s = Some rest"
  with Nil show ?thesis by simp
next
  case (Cons c cs)
  assume a: "markup_at s = Some rest"
  have "length (dropWhile (\<lambda>x. x \<noteq> CHR ''>'') cs) \<le> length cs"
    by (rule length_dropWhile_le)
  with a Cons show ?thesis
    by (auto split: if_splits list.splits)
qed

text \<open>\<^verbatim>\<open>re.sub(r'<[^>]+>', '', s)\<close>.\<close>

function remove_markup :: "string \<Rightarrow> string" where
  "remove_markup [] = []"
| "remove_markup (c # cs) =
     (case markup_at (c # cs) of
        Some rest \<Rightarrow> remove_markup rest
      | None \<Rightarrow> c # remove_markup cs)"
  by pat_completeness auto
termination
  by (relation "measure length") (auto simp del: markup_at.simps dest: markup_at_shorter)

text \<open>\<^verbatim>\<open>re.sub(r'\s+', ' ', s)\<close>.\<close>

function collapse_spaces :: "string \<Rightarrow> string" where
  "collapse_spaces [] = []"
| "collapse_spaces (c # cs) =
     (if is_space c then CHR '' '' # collapse_spaces (dropWhile is_space cs)
      else c # collapse_spaces cs)"
  by pat_completeness auto
termination
  by (relation "measure length") (auto simp: le_imp_less_Suc length_dropWhile_le)

definition clean_text :: "string \<Rightarrow> string" where
  "clean_text s = strip (collapse_spaces (remove_markup s))"

definition fieldnames :: "string list" where
  "fieldnames = [''date'', ''team1'', ''team2'', ''score1'', ''score2'', ''time'',
     ''game_type'', ''text_content'']"

definition opt_str :: "string option \<Rightarrow> cell" where
  "opt_str v = (case v of None \<Rightarrow> Cell_none | Some s \<Rightarrow> Cell_str s)"

definition opt_int :: "int option \<Rightarrow> cell" where
  "opt_int v = (case v of None \<Rightarrow> Cell_none | Some i \<Rightarrow> Cell_int i)"

text \<open>Lines 85 to 90: the row of one game, its cells in the order of
  \<open>fieldnames\<close>.\<close>

definition clean_game :: "game \<Rightarrow> cell list" where
  "clean_game g =
     [Cell_str (date g), opt_str (team1 g), opt_str (team2 g), opt_int (score1 g),
      opt_int (score2 g), opt_str (time g), opt_str (game_type g),
      Cell_str (clean_text (text_content g))]"

definition save_to_csv :: "libs \<Rightarrow> game list \<Rightarrow> string \<Rightarrow> world \<Rightarrow> error + world" where
  "save_to_csv L games output_file w =
     (if games = [] then Inr (print No_games_found_to_save w)
      else
        (let clean_games = map clean_game games in
         case write_file output_file (csv_writer L fieldnames clean_games) w of
           Inl e \<Rightarrow> Inl e
         | Inr w' \<Rightarrow> Inr (print (Saved_games (length games) output_file) w')))"

definition save_to_json :: "libs \<Rightarrow> game list \<Rightarrow> string \<Rightarrow> world \<Rightarrow> error + world" where
  "save_to_json L games output_file w =
     (if games = [] then Inr (print No_games_found_to_save w)
      else
        (case write_file output_file (json_dump L games) w of
           Inl e \<Rightarrow> Inl e
         | Inr w' \<Rightarrow> Inr (print (Saved_games (length games) output_file) w')))"

section \<open>Incremental update\<close>

text \<open>
  The body of the \<^verbatim>\<open>try\<close> of lines 140 to 171. An exception leaves the files as
  they are at that moment, so the world comes back beside the error. Lines 149 to 159
  only read the previous CSV into variables that nothing uses afterwards, with every
  exception caught; they change nothing and are left out.
\<close>

definition extract_and_write ::
  "libs \<Rightarrow> string \<Rightarrow> string \<Rightarrow> string \<Rightarrow> int \<Rightarrow> world \<Rightarrow> (error + bool) \<times> world" where
  "extract_and_write L html_file_path csv_file_path json_file_path html_mtime w =
     (case load_soup L w html_file_path of
        Inl e \<Rightarrow> (Inl e, w)
      | Inr soup \<Rightarrow>
          (case get_all_games_from_schedule (int_max_str_digits L) (today_str w) soup of
             Inl e \<Rightarrow> (Inl e, w)
           | Inr games \<Rightarrow>
               if games = [] then (Inr False, print No_games_in_html w)
               else
                 (let w1 = print (Extracted_games (length games)) w in
                  case save_to_csv L games csv_file_path w1 of
                    Inl e \<Rightarrow> (Inl e, w1)
                  | Inr w2 \<Rightarrow>
                      (case save_to_json L games json_file_path w2 of
                         Inl e \<Rightarrow> (Inl e, w2)
                       | Inr w3 \<Rightarrow>
                           (case utime csv_file_path html_mtime w3 of
                              Inl e \<Rightarrow> (Inl e, w3)
                            | Inr w4 \<Rightarrow>
                                (Inr True,
                                 print (Successfully_updated csv_file_path json_file_path)
                                   w4))))))"

text \<open>
  \<^verbatim>\<open>update_csv_from_html\<close>: the value returned, or the exception that leaves the
  function, beside the world. Lines 124 and 128 render the two modification times
  before the gate and outside the \<^verbatim>\<open>try\<close>; what they raise leaves the function.
  Inside the \<^verbatim>\<open>try\<close> every exception is caught and answered with \<^verbatim>\<open>False\<close>.
\<close>

definition update_csv_from_html ::
  "libs \<Rightarrow> string \<Rightarrow> string \<Rightarrow> string \<Rightarrow> bool \<Rightarrow> world \<Rightarrow> (error + bool) \<times> world" where
  "update_csv_from_html L html_file_path csv_file_path json_file_path force_update w =
     (let w0 = print Rule_line (print Checking_for_updates w) in
      case fs w0 html_file_path of
        None \<Rightarrow> (Inr False, print (Html_file_not_found html_file_path) w0)
      | Some hf \<Rightarrow>
          (let html_mtime = mtime hf in
           if \<not> fromtimestamp_ok L html_mtime then (Inl Value_error, w0)
           else
             (let csv_exists = (fs w0 csv_file_path \<noteq> None);
                  csv_mtime = (case fs w0 csv_file_path of Some cf \<Rightarrow> mtime cf | None \<Rightarrow> 0)
              in if \<not> fromtimestamp_ok L csv_mtime then (Inl Value_error, w0)
                 else
                   (let w1 = print (Csv_file_info csv_file_path csv_mtime)
                               (print (Html_file_info html_file_path html_mtime) w0)
                    in if \<not> force_update \<and> csv_exists \<and> html_mtime \<le> csv_mtime
                       then (Inr True, print Csv_is_up_to_date w1)
                       else
                         (case extract_and_write L html_file_path csv_file_path
                                 json_file_path html_mtime (print Extracting_games w1) of
                            (Inl e, w2) \<Rightarrow> (Inr False, print Error_updating_csv w2)
                          | (Inr b, w2) \<Rightarrow> (Inr b, w2))))))"

text \<open>What a call printed, and whether it went on to extraction: line 139 is printed
  exactly when the gate of line 135 lets the call through.\<close>

definition printed :: "world \<Rightarrow> world \<Rightarrow> message list" where
  "printed w w' = drop (length (stdout w)) (stdout w')"

definition proceeds :: "world \<Rightarrow> (error + bool) \<times> world \<Rightarrow> bool" where
  "proceeds w r = (Extracting_games \<in> set (printed w (snd r)))"

section \<open>The day sample\<close>

text \<open>\<^verbatim>\<open>str.lower\<close> and \<^verbatim>\<open>str.split()\<close> below code point 256.\<close>

definition lower_char :: "char \<Rightarrow> char" where
  "lower_char c = (let n = ord c in
     if (65 \<le> n \<and> n \<le> 90) \<or> (192 \<le> n \<and> n \<le> 222 \<and> n \<noteq> 215)
     then char_of (n + 32) else c)"

definition lower :: "string \<Rightarrow> string" where
  "lower s = map lower_char s"

function split_ws :: "string \<Rightarrow> string list" where
  "split_ws [] = []"
| "split_ws (c # cs) =
     (if is_space c then split_ws cs
      else takeWhile (\<lambda>x. \<not> is_space x) (c # cs)
             # split_ws (dropWhile (\<lambda>x. \<not> is_space x) cs))"
  by pat_completeness auto
termination
  by (relation "measure length") (auto simp: le_imp_less_Suc length_dropWhile_le)

text \<open>Lines 105 to 118 of \<^verbatim>\<open>day_sample.py\<close>: the sections that hold games.\<close>

record game_section =
  section_date :: string
  section_node :: node
  section_games :: "node list"

definition find_game_paragraphs :: "node \<Rightarrow> node list" where
  "find_game_paragraphs e = filter (\<lambda>d. ''game'' \<in> set (tag_classes d)) (find_all [''p''] e)"

definition game_sections :: "node \<Rightarrow> game_section list" where
  "game_sections soup =
     concat (map (\<lambda>sec.
       (let game_paragraphs = find_game_paragraphs sec in
        if game_paragraphs \<noteq> [] then
          [\<lparr> section_date = (case find_all [''h3''] sec of
                               [] \<Rightarrow> ''Unknown Date''
                             | h # _ \<Rightarrow> get_text_strip h),
             section_node = sec,
             section_games = game_paragraphs \<rparr>]
        else [])) (find_all [''div''] soup))"

text \<open>The pattern of line 141, as the f-string builds it.\<close>

definition backslash_b :: string where
  "backslash_b = [CHR 0x5C, CHR ''b'']"

definition date_pattern :: "string \<Rightarrow> string \<Rightarrow> string \<Rightarrow> string" where
  "date_pattern target_month target_day target_year =
     backslash_b @ target_month @ backslash_b @ ''.*'' @
     backslash_b @ target_day @ backslash_b @ ''.*'' @
     backslash_b @ target_year @ backslash_b"

text \<open>Lines 130 to 141: the pattern made from the first three words of the
  target.\<close>

definition target_pattern :: "string list \<Rightarrow> string" where
  "target_pattern target_parts =
     (let target_month = target_parts ! 0;
          day0 = filter (\<lambda>c. c \<noteq> CHR '','') (target_parts ! 1);
          target_year = target_parts ! 2;
          target_day = (if starts_with ''0'' day0 then drop 1 day0 else day0)
      in date_pattern target_month target_day target_year)"

text \<open>
  Lines 125 to 147, the test of one section against the target date. The target's
  words are pasted into the pattern unescaped, so what \<^verbatim>\<open>re.search\<close> does with it
  depends on the whole of Python's pattern language: \<open>re_search\<close> stands for that
  routine (nothing when it raises for a pattern that does not compile).
\<close>

definition section_matches ::
  "(string \<Rightarrow> string \<Rightarrow> bool option) \<Rightarrow> string \<Rightarrow> string \<Rightarrow> error + bool" where
  "section_matches re_search target_date sec_date =
     (let target_date_lower = lower target_date;
          section_date_lower = lower sec_date;
          target_parts = split_ws target_date_lower
      in if length target_parts \<ge> 3 then
           (case re_search (target_pattern target_parts) section_date_lower of
              None \<Rightarrow> Inl Regex_error
            | Some found \<Rightarrow> Inr found)
         else Inr (contains target_date_lower section_date_lower))"

fun matching_sections ::
  "(string \<Rightarrow> string \<Rightarrow> bool option) \<Rightarrow> string \<Rightarrow> game_section list
     \<Rightarrow> error + game_section list" where
  "matching_sections re_search target_date [] = Inr []"
| "matching_sections re_search target_date (sec # secs) =
     (case section_matches re_search target_date (section_date sec) of
        Inl e \<Rightarrow> Inl e
      | Inr found \<Rightarrow>
          (case matching_sections re_search target_date secs of
             Inl e \<Rightarrow> Inl e
           | Inr ms \<Rightarrow> Inr (if found then sec # ms else ms)))"

text \<open>
  Lines 163 to 201: the record of one game paragraph of a selected day. The
  \<^verbatim>\<open>import re\<close> of line 140 makes \<open>re\<close> a local name of the whole function, bound
  only once that line has run; lines 185 and 194 use it, and line 185 raises
  \<^verbatim>\<open>UnboundLocalError\<close> while it is unbound.
\<close>

definition parse_day_game :: "bool \<Rightarrow> nat \<Rightarrow> node \<Rightarrow> error + game_data option" where
  "parse_day_game re_bound max_str_digits game_p =
     (let tm = (case find_time_span game_p of
                  None \<Rightarrow> None | Some sp \<Rightarrow> Some (get_text_strip sp));
          gt = (case find_all [''span''] game_p of
                  [] \<Rightarrow> None
                | sp # _ \<Rightarrow> if contains ''Spring'' (get_text sp) then Some ''Spring'' else None)
      in if \<not> re_bound then Inl Unbound_local_error
         else
           (let team_links = find_team_links game_p in
            if length team_links \<ge> 2 then
              (case scores_of max_str_digits (findall_scores (get_text game_p)) of
                 Inl e \<Rightarrow> Inl e
               | Inr sc \<Rightarrow>
                   Inr (Some \<lparr> team1 = Some (get_text_strip (team_links ! 0)),
                               team2 = Some (get_text_strip (team_links ! 1)),
                               score1 = fst sc, score2 = snd sc,
                               time = tm, game_type = gt,
                               raw_html = game_p,
                               text_content = get_text_strip game_p \<rparr>))
            else Inr None))"

text \<open>The loop of line 162 over the paragraphs of one day.\<close>

fun parse_day_games :: "bool \<Rightarrow> nat \<Rightarrow> node list \<Rightarrow> error + game_data list" where
  "parse_day_games re_bound max_str_digits [] = Inr []"
| "parse_day_games re_bound max_str_digits (game_p # ps) =
     (case parse_day_game re_bound max_str_digits game_p of
        Inl e \<Rightarrow> Inl e
      | Inr found \<Rightarrow>
          (case parse_day_games re_bound max_str_digits ps of
             Inl e \<Rightarrow> Inl e
           | Inr gs \<Rightarrow> Inr ((case found of None \<Rightarrow> [] | Some g \<Rightarrow> [g]) @ gs)))"

record day =
  day_date :: string
  day_games :: "game_data list"

text \<open>The loop of line 159 over the selected days.\<close>

fun days_of :: "bool \<Rightarrow> nat \<Rightarrow> game_section list \<Rightarrow> error + day list" where
  "days_of re_bound max_str_digits [] = Inr []"
| "days_of re_bound max_str_digits (sec # secs) =
     (case parse_day_games re_bound max_str_digits (section_games sec) of
        Inl e \<Rightarrow> Inl e
      | Inr gs \<Rightarrow>
          (case days_of re_bound max_str_digits secs of
             Inl e \<Rightarrow> Inl e
           | Inr ds \<Rightarrow> Inr (\<lparr> day_date = section_date sec, day_games = gs \<rparr> # ds)))"

datatype notice = Date_not_found string | Available_dates | Available_date string

text \<open>
  \<^verbatim>\<open>get_games_for_date\<close> on the parsed document: what it prints and what it
  returns, or the exception that leaves it. Line 140 runs, and binds \<open>re\<close>, exactly
  when the loop of line 124 has a section to test and the target has at least three
  words.
\<close>

definition get_games_for_date ::
  "(string \<Rightarrow> string \<Rightarrow> bool option) \<Rightarrow> nat \<Rightarrow> node \<Rightarrow> string
     \<Rightarrow> error + notice list \<times> day list" where
  "get_games_for_date re_search max_str_digits soup target_date =
     (let secs = game_sections soup;
          re_bound = (secs \<noteq> [] \<and> 3 \<le> length (split_ws (lower target_date)))
      in case matching_sections re_search target_date secs of
           Inl e \<Rightarrow> Inl e
         | Inr ms \<Rightarrow>
             if ms \<noteq> [] then
               (case days_of re_bound max_str_digits ms of
                  Inl e \<Rightarrow> Inl e
                | Inr ds \<Rightarrow> Inr ([], ds))
             else Inr ([Date_not_found target_date, Available_dates]
                         @ map (\<lambda>sec. Available_date (section_date sec)) (take 5 secs), []))"

subsection \<open>Date patterns made of plain words\<close>

text \<open>
  When the three words of the target hold no character that the pattern language
  treats specially, the pattern of line 141 has a fixed shape: word, anything but a
  line break, word, anything but a line break, word, each word between two
  \<^verbatim>\<open>\b\<close>. On patterns of that shape \<open>search_plain_date\<close> is \<^verbatim>\<open>re.search\<close>. It
  is not a model of \<^verbatim>\<open>re.search\<close> on any other pattern: there its value is a
  placeholder, and it is applied below only to patterns that \<open>parse_date_pattern\<close>
  accepts.
\<close>

text \<open>\<^verbatim>\<open>\w\<close> below code point 256: letters, digits of every kind and the
  underscore.\<close>

definition is_word :: "char \<Rightarrow> bool" where
  "is_word c = (let n = ord c in
     (48 \<le> n \<and> n \<le> 57) \<or> (65 \<le> n \<and> n \<le> 90) \<or> n = 95 \<or> (97 \<le> n \<and> n \<le> 122) \<or>
     n = 170 \<or> n = 178 \<or> n = 179 \<or> n = 181 \<or> n = 185 \<or> n = 186 \<or>
     (188 \<le> n \<and> n \<le> 190) \<or> (192 \<le> n \<and> n \<le> 214) \<or> (216 \<le> n \<and> n \<le> 246) \<or>
     (248 \<le> n \<and> n \<le> 255))"

definition is_special :: "char \<Rightarrow> bool" where
  "is_special c = (c \<in> set ''.^$*+?{}[]|()'' \<or> c = CHR 0x5C)"

definition boundary_at :: "string \<Rightarrow> nat \<Rightarrow> bool" where
  "boundary_at t i =
     ((0 < i \<and> i \<le> length t \<and> is_word (t ! (i - 1))) \<noteq> (i < length t \<and> is_word (t ! i)))"

definition word_at :: "string \<Rightarrow> nat \<Rightarrow> string \<Rightarrow> bool" where
  "word_at t i a =
     (boundary_at t i \<and> take (length a) (drop i t) = a \<and> i + length a \<le> length t \<and>
      boundary_at t (i + length a))"

definition same_line :: "string \<Rightarrow> nat \<Rightarrow> nat \<Rightarrow> bool" where
  "same_line t i j = list_all (\<lambda>k. t ! k \<noteq> CHR 0x0A) [i..<j]"

definition search_words :: "string \<Rightarrow> string \<Rightarrow> string \<Rightarrow> string \<Rightarrow> bool" where
  "search_words t a b c =
     list_ex (\<lambda>i. word_at t i a \<and>
       list_ex (\<lambda>j. same_line t (i + length a) j \<and> word_at t j b \<and>
         list_ex (\<lambda>k. same_line t (j + length b) k \<and> word_at t k c)
           [j + length b..<Suc (length t)])
         [i + length a..<Suc (length t)])
       [0..<Suc (length t)]"

definition strip_prefix :: "string \<Rightarrow> string \<Rightarrow> string option" where
  "strip_prefix p s = (if starts_with p s then Some (drop (length p) s) else None)"

definition parse_date_pattern :: "string \<Rightarrow> (string \<times> string \<times> string) option" where
  "parse_date_pattern pat =
     (let plain = (\<lambda>x. x \<noteq> CHR 0x5C); gap = backslash_b @ ''.*'' @ backslash_b in
      case strip_prefix backslash_b pat of
        None \<Rightarrow> None
      | Some r1 \<Rightarrow>
          (case strip_prefix gap (dropWhile plain r1) of
             None \<Rightarrow> None
           | Some r2 \<Rightarrow>
               (case strip_prefix gap (dropWhile plain r2) of
                  None \<Rightarrow> None
                | Some r3 \<Rightarrow>
                    (let a = takeWhile plain r1; b = takeWhile plain r2;
                         c = takeWhile plain r3
                     in if dropWhile plain r3 = backslash_b \<and>
                           \<not> list_ex is_special (a @ b @ c)
                        then Some (a, b, c) else None))))"

definition search_plain_date :: "string \<Rightarrow> string \<Rightarrow> bool option" where
  "search_plain_date pat t =
     (case parse_date_pattern pat of
        None \<Rightarrow> None
      | Some (a, b, c) \<Rightarrow> Some (search_words t a b c))"

section \<open>Team codes of the odds extractor\<close>

definition team_code_items :: "(string \<times> string) list" where
  "team_code_items =
    [(''Arizona Diamondbacks'', ''ARI''), (''Arizona'', ''ARI''),
     (''Atlanta Braves'', ''ATL''), (''Atlanta'', ''ATL''),
     (''Baltimore Orioles'', ''BAL''), (''Baltimore'', ''BAL''),
     (''Boston Red Sox'', ''BOS''), (''Boston'', ''BOS''),
     (''Chicago White Sox'', ''CWS''), (''Chi. White Sox'', ''CWS''), (''White Sox'', ''CWS''),
     (''Chicago Cubs'', ''CHC''), (''Chi. Cubs'', ''CHC''), (''Cubs'', ''CHC''),
     (''Cincinnati Reds'', ''CIN''), (''Cincinnati'', ''CIN''),
     (''Cleveland Guardians'', ''CLE''), (''Cleveland'', ''CLE''),
     (''Colorado Rockies'', ''COL''), (''Colorado'', ''COL''),
     (''Detroit Tigers'', ''DET''), (''Detroit'', ''DET''),
     (''Houston Astros'', ''HOU''), (''Houston'', ''HOU''),
     (''Kansas City Royals'', ''KC''), (''Kansas City'', ''KC''),
     (''Los Angeles Angels'', ''LAA''), (''LA Angels'', ''LAA''), (''Angels'', ''LAA''),
     (''Los Angeles Dodgers'', ''LAD''), (''LA Dodgers'', ''LAD''), (''Dodgers'', ''LAD''),
     (''Miami Marlins'', ''MIA''), (''Miami'', ''MIA''),
     (''Milwaukee Brewers'', ''MIL''), (''Milwaukee'', ''MIL''),
     (''Minnesota Twins'', ''MIN''), (''Minnesota'', ''MIN''),
     (''New York Yankees'', ''NYY''), (''NY Yankees'', ''NYY''), (''Yankees'', ''NYY''),
     (''New York Mets'', ''NYM''), (''NY Mets'', ''NYM''), (''Mets'', ''NYM''),
     (''Oakland Athletics'', ''OAK''), (''Oakland'', ''OAK''),
     (''Philadelphia Phillies'', ''PHI''), (''Philadelphia'', ''PHI''),
     (''Pittsburgh Pirates'', ''PIT''), (''Pittsburgh'', ''PIT''),
     (''San Diego Padres'', ''SD''), (''San Diego'', ''SD''),
     (''San Francisco Giants'', ''SF''), (''San Francisco'', ''SF''),
     (''Seattle Mariners'', ''SEA''), (''Seattle'', ''SEA''),
     (''St. Louis Cardinals'', ''STL''), (''St. Louis'', ''STL''),
     (''Tampa Bay Rays'', ''TB''), (''Tampa Bay'', ''TB''),
     (''Texas Rangers'', ''TEX''), (''Texas'', ''TEX''),
     (''Toronto Blue Jays'', ''TOR''), (''Toronto'', ''TOR''),
     (''Washington Nationals'', ''WSH''), (''Washington'', ''WSH'')]"

text \<open>The dictionary of lines 7 to 74: a later entry for a key replaces an earlier
  one.\<close>

definition TEAM_CODE_MAP :: "string \<Rightarrow> string option" where
  "TEAM_CODE_MAP = foldl (\<lambda>m kv. m(fst kv \<mapsto> snd kv)) Map.empty team_code_items"

text \<open>\<^verbatim>\<open>TEAM_CODE_MAP.get(name, name)\<close>, lines 95 and 96.\<close>

definition team_code :: "string \<Rightarrow> string" where
  "team_code name = (case TEAM_CODE_MAP name of Some code \<Rightarrow> code | None \<Rightarrow> name)"

record game_view =
  away_display_name :: string
  home_display_name :: string

text \<open>Lines 93 to 96 of \<^verbatim>\<open>extract_odds_from_html\<close>: the two team columns of a
  row.\<close>

definition odds_teams :: "game_view \<Rightarrow> string \<times> string" where
  "odds_teams gv =
     (let team1_full = away_display_name gv; team2_full = home_display_name gv
      in (team_code team1_full, team_code team2_full))"

section \<open>Notions used by the properties\<close>

text \<open>A heading that sets the date context: the two branches of lines 30 to 33.\<close>

definition sets_date :: "node \<Rightarrow> bool" where
  "sets_date e =
     (tag_name e = Some ''h3'' \<and>
      (let t = get_text_strip e in
       t = todays_games \<or> (contains '','' t \<and> contains ''2025'' t)))"


text \<open>
  Following the specification's words, not the code: a text holds a four-digit year
  token when one of its maximal runs of digits has exactly four digits.
\<close>

function spec_year_token :: "string \<Rightarrow> bool" where
  "spec_year_token [] = False"
| "spec_year_token (c # cs) =
     (if is_digit c
      then (length (takeWhile is_digit (c # cs)) = 4 \<or> spec_year_token (dropWhile is_digit cs))
      else spec_year_token cs)"
  by pat_completeness auto
termination
  by (relation "measure length") (auto simp: le_imp_less_Suc length_dropWhile_le)

text \<open>A string of digits that \<^verbatim>\<open>int\<close> converts under the limit: the test of
  \<open>py_int\<close> the other way round.\<close>

definition int_accepts :: "nat \<Rightarrow> string \<Rightarrow> bool" where
  "int_accepts max_str_digits s = (max_str_digits = 0 \<or> length s \<le> max_str_digits)"

text \<open>A pattern routine that raises on every call: a run that returns with it never
  called \<^verbatim>\<open>re.search\<close>.\<close>

definition search_raises :: "string \<Rightarrow> string \<Rightarrow> bool option" where
  "search_raises pat t = None"

subsection \<open>Sample documents\<close>

definition team_link :: "string \<Rightarrow> string \<Rightarrow> node" where
  "team_link code nm = Tag ''a'' [] [(''href'', ''/teams/'' @ code @ ''/2025.shtml'')] [Str nm]"

definition final_game :: node where
  "final_game =
     Tag ''p'' [''game''] []
       [team_link ''CLE'' ''Guardians'', Str '' (3) @ '', team_link ''NYM'' ''Mets'',
        Str '' (5)'']"

text \<open>A game paragraph whose only parenthesized token is \<open>ds\<close>.\<close>

definition game_with_token :: "string \<Rightarrow> node" where
  "game_with_token ds =
     Tag ''p'' [''game''] []
       [team_link ''CLE'' ''Guardians'', Str ('' ('' @ ds @ '') @ ''),
        team_link ''NYM'' ''Mets'']"

definition section_of :: "string \<Rightarrow> node \<Rightarrow> node" where
  "section_of heading game_p =
     Tag ''[document]'' [] []
       [Tag ''div'' [] [] [Tag ''h3'' [] [] [Str heading], game_p]]"

definition day_section :: "string \<Rightarrow> node" where
  "day_section heading = section_of heading final_game"

definition sample_record :: game where
  "sample_record =
     \<lparr> team1 = Some ''Guardians'', team2 = Some ''Mets'', score1 = Some 3, score2 = Some 5,
       time = None, game_type = None, raw_html = final_game,
       text_content = ''Guardians (3) @ Mets (5)'', date = ''August 4, 2025'' \<rparr>"

text \<open>The sample interpreter has the default limit of \<^verbatim>\<open>int\<close> and renders the
  timestamps of the years 1 to 9999, counted in seconds.\<close>

definition sample_libs :: libs where
  "sample_libs =
     \<lparr> html_parser = (\<lambda>t. Some (day_section ''August 4, 2025'')),
       csv_writer = (\<lambda>header rows. ''csv''),
       json_dump = (\<lambda>games. ''json''),
       int_max_str_digits = 4300,
       fromtimestamp_ok = (\<lambda>t. - 62135596800 \<le> t \<and> t < 253402300800) \<rparr>"

definition sample_world :: world where
  "sample_world =
     \<lparr> fs = [''html/MLB-schedule.shtml'' \<mapsto> \<lparr>mtime = 200, data = ''html''\<rparr>,
              ''html/future.shtml'' \<mapsto> \<lparr>mtime = 260000000000, data = ''html''\<rparr>,
              ''games.csv'' \<mapsto> \<lparr>mtime = 100, data = ''old''\<rparr>],
       writable = (\<lambda>p. True),
       now = 300,
       today_str = ''Monday, August 4, 2025'',
       stdout = [] \<rparr>"

section \<open>Properties of the canonical extractor\<close>

lemma parse_game_fields:
  assumes "parse_game n d e = Inr (Some g)"
  shows "team1 g \<noteq> None \<and> team2 g \<noteq> None \<and> game_type g = None \<and> date g = d"
  using assms by (auto simp: parse_game_def Let_def split: if_splits sum.splits)

lemma step_games:
  assumes "step n today st element = Inr st'"
    and "\<forall>g \<in> set (snd st). P g"
    and "\<And>d g. parse_game n d element = Inr (Some g) \<Longrightarrow> P g"
  shows "\<forall>g \<in> set (snd st'). P g"
  using assms
  by (auto simp: step_def Let_def split: option.splits if_splits sum.splits)

lemma scan_games:
  assumes "scan n today st es = Inr st'"
    and "\<forall>g \<in> set (snd st). P g"
    and "\<And>d e g. parse_game n d e = Inr (Some g) \<Longrightarrow> P g"
  shows "\<forall>g \<in> set (snd st'). P g"
  using assms(1,2)
proof (induction es arbitrary: st)
  case Nil
  then show ?case by simp
next
  case (Cons e es)
  from Cons.prems(1) obtain st1 where s1: "step n today st e = Inr st1"
    and rest: "scan n today st1 es = Inr st'"
    by (auto split: sum.splits)
  have "\<forall>g \<in> set (snd st1). P g"
    using s1 Cons.prems(2) assms(3) by (rule step_games)
  with rest show ?case by (rule Cons.IH)
qed

lemma returned_games:
  assumes "get_all_games_from_schedule n today soup = Inr games"
    and "\<And>d e g. parse_game n d e = Inr (Some g) \<Longrightarrow> P g"
  shows "\<forall>g \<in> set games. P g"
proof -
  from assms(1) obtain st where
    st: "scan n today (None, []) (find_all [''h3'', ''p''] soup) = Inr st" and "games = snd st"
    by (auto simp: get_all_games_from_schedule_def split: sum.splits)
  have "\<forall>g \<in> set (snd st). P g"
    using st _ assms(2) by (rule scan_games) simp
  with \<open>games = snd st\<close> show ?thesis by simp
qed

lemma sample_extraction:
  "get_all_games_from_schedule 4300 ''Monday, August 4, 2025'' (day_section ''August 4, 2025'')
     = Inr [sample_record]"
  by code_simp

text \<open>
  What \<^verbatim>\<open>re.findall\<close> returns for the score pattern: nothing for a text without an
  opening parenthesis, and the first token followed by the tokens of the rest when the
  text before the first token has no opening parenthesis.
\<close>

lemma close_paren_not_digit: "\<not> is_digit (CHR '')'')"
  by (simp add: is_digit_def ord_def)

lemma score_at_token:
  assumes "ds \<noteq> []" and "\<forall>c \<in> set ds. is_digit c"
  shows "score_at (CHR ''('' # ds @ CHR '')'' # rest) = Some (ds, rest)"
proof -
  have "takeWhile is_digit (ds @ CHR '')'' # rest) = ds"
    using assms(2) close_paren_not_digit by (simp add: takeWhile_append2)
  moreover have "dropWhile is_digit (ds @ CHR '')'' # rest) = CHR '')'' # rest"
    using assms(2) close_paren_not_digit by (simp add: dropWhile_append2)
  ultimately show ?thesis using assms(1) by simp
qed

lemma findall_scores_first_token:
  assumes "CHR ''('' \<notin> set pre" and "ds \<noteq> []" and "\<forall>c \<in> set ds. is_digit c"
  shows "findall_scores (pre @ CHR ''('' # ds @ CHR '')'' # rest) = ds # findall_scores rest"
  using assms(1)
proof (induction pre)
  case Nil
  show ?case
    using score_at_token [OF assms(2,3), of rest] by (simp del: score_at.simps)
next
  case (Cons c pre)
  then have "score_at (c # pre @ CHR ''('' # ds @ CHR '')'' # rest) = None"
    by auto
  with Cons show ?case by (simp del: score_at.simps)
qed

lemma findall_scores_none:
  assumes "CHR ''('' \<notin> set s"
  shows "findall_scores s = []"
  using assms by (induction s) auto

lemma game_with_token_links: "length (find_team_links (game_with_token ds)) = 2"
proof -
  have "team_path_search ''/teams/CLE/2025.shtml''" "team_path_search ''/teams/NYM/2025.shtml''"
    by code_simp+
  then show ?thesis
    by (simp add: game_with_token_def find_team_links_def find_all_def team_link_def
          del: team_path_search.simps)
qed

lemma game_with_token_scores:
  assumes "ds \<noteq> []" and "\<forall>c \<in> set ds. is_digit c"
  shows "findall_scores (get_text (game_with_token ds)) = [ds]"
proof -
  have flat: "get_text (game_with_token ds) =
                ''Guardians '' @ CHR ''('' # ds @ CHR '')'' # '' @ Mets''"
    by (simp add: game_with_token_def get_text_def team_link_def)
  have "CHR ''('' \<notin> set ''Guardians ''"
    by simp
  then have first: "findall_scores (''Guardians '' @ CHR ''('' # ds @ CHR '')'' # '' @ Mets'')
                      = ds # findall_scores '' @ Mets''"
    using assms by (rule findall_scores_first_token)
  have "CHR ''('' \<notin> set '' @ Mets''"
    by simp
  then have "findall_scores '' @ Mets'' = []"
    by (rule findall_scores_none)
  with flat first show ?thesis by (simp only:)
qed

lemma game_with_token_raises:
  assumes "ds \<noteq> []" and "\<forall>c \<in> set ds. is_digit c" and "0 < n" and "n < length ds"
  shows "parse_game n d (game_with_token ds) = Inl Value_error"
  using assms game_with_token_links [of ds] game_with_token_scores [of ds]
  by (simp add: parse_game_def Let_def scores_of_def py_int_def)

lemma nines: "replicate 4301 (CHR ''9'') \<noteq> [] \<and> (\<forall>c \<in> set (replicate 4301 (CHR ''9'')). is_digit c)"
  by (simp add: is_digit_def ord_def)

text \<open>
  Claim C9. Every record that \<^verbatim>\<open>get_all_games_from_schedule\<close> returns has both
  \<open>team1\<close> and \<open>team2\<close> set: a record is appended only in the branch that found
  two team links and assigned both names.
\<close>

theorem emitted_teams_present:
  assumes "get_all_games_from_schedule n today soup = Inr games" and "g \<in> set games"
  shows "team1 g \<noteq> None \<and> team2 g \<noteq> None"
proof -
  have "\<forall>g \<in> set games. team1 g \<noteq> None \<and> team2 g \<noteq> None"
    using assms(1) by (rule returned_games) (auto dest: parse_game_fields)
  with assms(2) show ?thesis by simp
qed

theorem emitted_teams_present_witness:
  "get_all_games_from_schedule 4300 ''Monday, August 4, 2025'' (day_section ''August 4, 2025'')
     = Inr [sample_record] \<and>
   team1 sample_record \<noteq> None \<and> team2 sample_record \<noteq> None"
  using emitted_teams_present [OF sample_extraction, of sample_record] sample_extraction
  by simp

text \<open>
  Claim C10. Every record that \<^verbatim>\<open>get_all_games_from_schedule\<close> returns has
  \<open>game_type\<close> unset: the field starts as \<^verbatim>\<open>None\<close> and nothing assigns it;
  paragraphs marked as spring games are skipped, not classified.
\<close>

theorem emitted_game_type_none:
  assumes "get_all_games_from_schedule n today soup = Inr games" and "g \<in> set games"
  shows "game_type g = None"
proof -
  have "\<forall>g \<in> set games. game_type g = None"
    using assms(1) by (rule returned_games) (auto dest: parse_game_fields)
  with assms(2) show ?thesis by simp
qed

theorem emitted_game_type_none_witness:
  "get_all_games_from_schedule 4300 ''Monday, August 4, 2025'' (day_section ''August 4, 2025'')
     = Inr [sample_record] \<and>
   game_type sample_record = None"
  using emitted_game_type_none [OF sample_extraction, of sample_record] sample_extraction
  by simp

text \<open>
  Claim C2, as stated: for every game paragraph with at least two team links the record
  gets its scores from the parenthesized integer tokens. A token is converted by
  \<^verbatim>\<open>int\<close>, which refuses a string of more digits than the interpreter's limit: under
  the default limit of 4300, a paragraph with two team links and the token of 4301
  nines yields no record, the conversion raises \<^verbatim>\<open>ValueError\<close> and the extraction of
  the whole document ends with it.
\<close>

theorem long_token_counterexample:
  "2 \<le> length (find_team_links (game_with_token (replicate 4301 (CHR ''9'')))) \<and>
   findall_scores (get_text (game_with_token (replicate 4301 (CHR ''9''))))
     = [replicate 4301 (CHR ''9'')] \<and>
   parse_game 4300 ''August 4, 2025'' (game_with_token (replicate 4301 (CHR ''9'')))
     = Inl Value_error"
  using nines game_with_token_links [of "replicate 4301 (CHR ''9'')"]
    game_with_token_scores [of "replicate 4301 (CHR ''9'')"]
    game_with_token_raises [of "replicate 4301 (CHR ''9'')" 4300 "''August 4, 2025''"]
  by simp

text \<open>
  Claim C2, amended. For a game paragraph with at least two team links whose first two
  parenthesized integer tokens have no more digits than the interpreter's limit for
  \<^verbatim>\<open>int\<close> (4300 by default, none when the limit is 0), the record's scores come from
  the tokens of the paragraph's flattened text, in the order in which
  \<^verbatim>\<open>re.findall\<close> meets them: no token leaves both scores unset, one token sets
  \<open>score1\<close> only, two or more set \<open>score1\<close> and \<open>score2\<close> from the first two and
  the rest is ignored.
\<close>

theorem scores_from_tokens:
  assumes "2 \<le> length (find_team_links element)"
    and "\<forall>tok \<in> set (take 2 (findall_scores (get_text element))). int_accepts n tok"
  shows "\<exists>g. parse_game n d element = Inr (Some g) \<and>
     (case findall_scores (get_text element) of
        [] \<Rightarrow> score1 g = None \<and> score2 g = None
      | [a] \<Rightarrow> score1 g = Some (int_of_digits a) \<and> score2 g = None
      | a # b # others \<Rightarrow>
          score1 g = Some (int_of_digits a) \<and> score2 g = Some (int_of_digits b))"
proof (cases "findall_scores (get_text element)")
  case Nil
  with assms(1) show ?thesis
    by (simp add: parse_game_def Let_def scores_of_def)
next
  case (Cons a rest)
  note first = Cons
  show ?thesis
  proof (cases rest)
    case Nil
    with first assms(2) have "py_int n a = Inr (int_of_digits a)"
      by (auto simp: py_int_def int_accepts_def)
    with first Nil assms(1) show ?thesis
      by (simp add: parse_game_def Let_def scores_of_def)
  next
    case (Cons b others)
    with first assms(2) have "py_int n a = Inr (int_of_digits a)"
      and "py_int n b = Inr (int_of_digits b)"
      by (auto simp: py_int_def int_accepts_def)
    with first Cons assms(1) show ?thesis
      by (simp add: parse_game_def Let_def scores_of_def)
  qed
qed

theorem scores_from_tokens_witness:
  "2 \<le> length (find_team_links final_game) \<and>
   findall_scores (get_text final_game) = [''3'', ''5''] \<and>
   int_accepts 4300 ''3'' \<and> int_accepts 4300 ''5'' \<and>
   (\<exists>g. parse_game 4300 ''August 4, 2025'' final_game = Inr (Some g) \<and>
        score1 g = Some 3 \<and> score2 g = Some 5)"
proof -
  have links: "2 \<le> length (find_team_links final_game)"
    by code_simp
  have tokens: "findall_scores (get_text final_game) = [''3'', ''5'']"
    by code_simp
  have short: "int_accepts 4300 ''3''" "int_accepts 4300 ''5''"
    by code_simp+
  have ints: "int_of_digits ''3'' = 3" "int_of_digits ''5'' = 5"
    by code_simp+
  from tokens short
  have "\<forall>tok \<in> set (take 2 (findall_scores (get_text final_game))). int_accepts 4300 tok"
    by simp
  from scores_from_tokens [OF links this, of "''August 4, 2025''"] tokens ints links short
  show ?thesis by simp
qed

section \<open>Properties of the sink writers\<close>

text \<open>
  Claim C6. Given no records, \<^verbatim>\<open>save_to_csv\<close> and \<^verbatim>\<open>save_to_json\<close> report
  that there is nothing to save and return without raising; no file is created or
  changed.
\<close>

theorem empty_games_not_written:
  "save_to_csv L [] output_file w = Inr (print No_games_found_to_save w) \<and>
   save_to_json L [] output_file w = Inr (print No_games_found_to_save w) \<and>
   fs (print No_games_found_to_save w) = fs w \<and>
   stdout (print No_games_found_to_save w) = stdout w @ [No_games_found_to_save]"
  by (simp add: save_to_csv_def save_to_json_def print_def)

section \<open>Properties of the date context\<close>

lemma contains_nonempty: "contains sub s \<Longrightarrow> sub \<noteq> [] \<Longrightarrow> s \<noteq> []"
  by (cases s) auto

lemma step_no_date:
  assumes "\<not> sets_date e"
  shows "step n today (None, []) e = Inr (None, [])"
  using assms
  by (auto simp: step_def heading_date_def sets_date_def Let_def split: option.splits)

lemma scan_no_date:
  assumes "\<forall>e \<in> set es. \<not> sets_date e"
  shows "scan n today (None, []) es = Inr (None, [])"
  using assms by (induction es) (simp_all add: step_no_date)



text \<open>
  Claim C3, as stated: a heading other than the placeholder becomes the date context
  exactly when its text holds a comma and a four-digit year token. The code asks for
  the year 2025, not for any year: the heading \<^verbatim>\<open>April 1, 2024\<close> holds a comma and
  the four-digit token 2024, and the context stays what it was.
\<close>

theorem heading_year_counterexample:
  "tag_name (Tag ''h3'' [] [] [Str ''April 1, 2024'']) = Some ''h3'' \<and>
   get_text_strip (Tag ''h3'' [] [] [Str ''April 1, 2024'']) = ''April 1, 2024'' \<and>
   ''April 1, 2024'' \<noteq> todays_games \<and>
   contains '','' ''April 1, 2024'' \<and>
   spec_year_token ''April 1, 2024'' \<and>
   step 4300 ''Monday, August 4, 2025'' (Some ''March 31, 2025'', [])
     (Tag ''h3'' [] [] [Str ''April 1, 2024'']) = Inr (Some ''March 31, 2025'', [])"
  by code_simp

text \<open>
  Claim C3, amended. For a heading whose text is not the placeholder, the text becomes
  the date context exactly when it holds a comma and the characters \<^verbatim>\<open>2025\<close>; any
  other heading leaves the context, and the games collected so far, unchanged.
\<close>

theorem heading_sets_date:
  assumes "tag_name h = Some ''h3''" and "get_text_strip h \<noteq> todays_games"
  shows "step n today (cur, games) h =
           Inr (if contains '','' (get_text_strip h) \<and> contains ''2025'' (get_text_strip h)
                then Some (get_text_strip h) else cur, games)"
  using assms contains_nonempty [of "'',''" "get_text_strip h"]
  by (auto simp: step_def heading_date_def Let_def)

theorem heading_sets_date_witness:
  "tag_name (Tag ''h3'' [] [] [Str ''August 4, 2025'']) = Some ''h3'' \<and>
   get_text_strip (Tag ''h3'' [] [] [Str ''August 4, 2025'']) \<noteq> todays_games \<and>
   step 4300 ''Monday, August 4, 2025'' (None, []) (Tag ''h3'' [] [] [Str ''August 4, 2025''])
     = Inr (Some ''August 4, 2025'', [])"
proof -
  have a: "tag_name (Tag ''h3'' [] [] [Str ''August 4, 2025'']) = Some ''h3''"
    by simp
  have b: "get_text_strip (Tag ''h3'' [] [] [Str ''August 4, 2025'']) \<noteq> todays_games"
    by code_simp
  have c: "get_text_strip (Tag ''h3'' [] [] [Str ''August 4, 2025'']) = ''August 4, 2025''"
    by code_simp
  have d: "contains '','' ''August 4, 2025''" "contains ''2025'' ''August 4, 2025''"
    by code_simp+
  from heading_sets_date [OF a b, of 4300 "''Monday, August 4, 2025''" None "[]"] a b c d
  show ?thesis by simp
qed

text \<open>
  Claim C4. A document in which no heading sets a date context yields no records,
  however many game paragraphs it holds.
\<close>

theorem no_date_heading_no_games:
  assumes "\<forall>e \<in> set (find_all [''h3'', ''p''] soup). \<not> sets_date e"
  shows "get_all_games_from_schedule n today soup = Inr []"
  using scan_no_date [OF assms] by (simp add: get_all_games_from_schedule_def)

theorem no_date_heading_no_games_witness:
  "length (filter (\<lambda>e. ''game'' \<in> set (tag_classes e))
             (find_all [''h3'', ''p''] (day_section ''Standings''))) = 1 \<and>
   get_all_games_from_schedule 4300 ''Monday, August 4, 2025'' (day_section ''Standings'')
     = Inr []"
proof -
  have a: "list_all (\<lambda>e. \<not> sets_date e) (find_all [''h3'', ''p''] (day_section ''Standings''))"
    by code_simp
  have b: "length (filter (\<lambda>e. ''game'' \<in> set (tag_classes e))
             (find_all [''h3'', ''p''] (day_section ''Standings''))) = 1"
    by code_simp
  from a have "\<forall>e \<in> set (find_all [''h3'', ''p''] (day_section ''Standings'')). \<not> sets_date e"
    by (simp add: list_all_iff)
  from no_date_heading_no_games [OF this] b show ?thesis by simp
qed




section \<open>Properties of the incremental update\<close>

lemma fs_print [simp]: "fs (print m w) = fs w"
  by (simp add: print_def)

lemma stdout_print [simp]: "stdout (print m w) = stdout w @ [m]"
  by (simp add: print_def)

lemma write_file_stdout: "write_file p t w = Inr w' \<Longrightarrow> stdout w' = stdout w"
  by (auto simp: write_file_def split: if_splits)

lemma utime_result:
  "utime p t w = Inr w' \<Longrightarrow> stdout w' = stdout w \<and> (\<exists>f. fs w' p = Some f \<and> mtime f = t)"
  by (auto simp: utime_def split: option.splits)

lemma save_to_csv_stdout:
  "save_to_csv L games p w = Inr w' \<Longrightarrow> \<exists>ms. stdout w' = stdout w @ ms"
  by (auto simp: save_to_csv_def Let_def split: if_splits sum.splits dest: write_file_stdout)

lemma save_to_json_stdout:
  "save_to_json L games p w = Inr w' \<Longrightarrow> \<exists>ms. stdout w' = stdout w @ ms"
  by (auto simp: save_to_json_def split: if_splits sum.splits dest: write_file_stdout)

lemma extract_and_write_stdout:
  "\<exists>ms. stdout (snd (extract_and_write L h c j t w)) = stdout w @ ms"
  unfolding extract_and_write_def Let_def
  by (auto split: sum.splits dest!: save_to_csv_stdout save_to_json_stdout utime_result)

lemma extract_and_write_success:
  assumes "extract_and_write L h c j t w = (Inr True, w')"
  shows "\<exists>f. fs w' c = Some f \<and> mtime f = t"
  using assms unfolding extract_and_write_def Let_def
  by (auto split: sum.splits if_splits dest!: utime_result)

text \<open>
  Claim C1, as stated: for every source path, the call goes on to extraction exactly
  when the output is absent, or the update is forced, or the source is newer. A source
  path that does not exist stops the call at line 119, before the gate: even a forced
  update does not proceed.
\<close>

theorem missing_source_counterexample:
  "fs sample_world ''html/missing.shtml'' = None \<and>
   \<not> proceeds sample_world
       (update_csv_from_html sample_libs ''html/missing.shtml'' ''games.csv'' ''games.json''
          True sample_world) \<and>
   fst (update_csv_from_html sample_libs ''html/missing.shtml'' ''games.csv'' ''games.json''
          True sample_world) = Inr False"
  by code_simp

text \<open>
  A source that exists does not proceed either when line 124 cannot render its
  modification time: the exception leaves the function before the gate, forced or not.
\<close>

lemma unrenderable_mtime_raises:
  "map_option mtime (fs sample_world ''html/future.shtml'') = Some 260000000000 \<and>
   \<not> fromtimestamp_ok sample_libs 260000000000 \<and>
   \<not> proceeds sample_world
       (update_csv_from_html sample_libs ''html/future.shtml'' ''games.csv'' ''games.json''
          True sample_world) \<and>
   fst (update_csv_from_html sample_libs ''html/future.shtml'' ''games.csv'' ''games.json''
          True sample_world) = Inl Value_error"
  by code_simp

text \<open>
  Claim C1, amended. For every source file that exists, every output path and every
  force flag, provided \<^verbatim>\<open>datetime.fromtimestamp\<close> renders the two modification times
  of lines 124 and 128 (the source's, and the output's or 0 for an absent output),
  \<^verbatim>\<open>update_csv_from_html\<close> goes on to extraction exactly when the output file is
  absent, or the update is forced, or the source's modification time is strictly greater
  than the output's; and when such a run succeeds, the output's modification time is the
  source's.
\<close>

theorem staleness_gate:
  assumes "fs w html = Some hf"
    and "fromtimestamp_ok L (mtime hf)"
    and "fromtimestamp_ok L (case fs w csv of Some cf \<Rightarrow> mtime cf | None \<Rightarrow> 0)"
  shows "(proceeds w (update_csv_from_html L html csv json force w) \<longleftrightarrow>
            fs w csv = None \<or> force \<or> (\<exists>cf. fs w csv = Some cf \<and> mtime cf < mtime hf))
       \<and> (proceeds w (update_csv_from_html L html csv json force w) \<and>
            fst (update_csv_from_html L html csv json force w) = Inr True \<longrightarrow>
            (\<exists>cf. fs (snd (update_csv_from_html L html csv json force w)) csv = Some cf \<and>
                  mtime cf = mtime hf))"
proof -
  let ?w1 = "print (Csv_file_info csv (case fs w csv of Some cf \<Rightarrow> mtime cf | None \<Rightarrow> 0))
               (print (Html_file_info html (mtime hf))
                 (print Rule_line (print Checking_for_updates w)))"
  let ?skip = "\<not> force \<and> fs w csv \<noteq> None \<and>
                 mtime hf \<le> (case fs w csv of Some cf \<Rightarrow> mtime cf | None \<Rightarrow> 0)"
  let ?r = "update_csv_from_html L html csv json force w"
  let ?x = "extract_and_write L html csv json (mtime hf) (print Extracting_games ?w1)"
  have skip: "?skip \<Longrightarrow> ?r = (Inr True, print Csv_is_up_to_date ?w1)"
    using assms by (simp add: update_csv_from_html_def Let_def)
  have go: "\<not> ?skip \<Longrightarrow> ?r = (case ?x of (Inl e, w2) \<Rightarrow> (Inr False, print Error_updating_csv w2)
                                    | (Inr b, w2) \<Rightarrow> (Inr b, w2))"
    using assms by (auto simp add: update_csv_from_html_def Let_def)
  obtain ms where ms: "stdout (snd ?x) = stdout (print Extracting_games ?w1) @ ms"
    using extract_and_write_stdout by blast
  have p_skip: "?skip \<Longrightarrow> \<not> proceeds w ?r"
    using skip by (simp add: proceeds_def printed_def)
  have p_go: "\<not> ?skip \<Longrightarrow> proceeds w ?r"
  proof -
    assume ns: "\<not> ?skip"
    obtain res w2 where x: "?x = (res, w2)" by (cases ?x)
    with ms have out: "stdout w2 = stdout (print Extracting_games ?w1) @ ms" by simp
    then have "Extracting_games \<in> set (printed w w2)"
      by (simp add: printed_def)
    moreover have "Extracting_games \<in> set (printed w (print Error_updating_csv w2))"
      using out by (simp add: printed_def)
    ultimately show "proceeds w ?r"
      using go [OF ns] x by (cases res) (simp_all add: proceeds_def)
  qed
  have cond: "?skip \<longleftrightarrow>
      \<not> (fs w csv = None \<or> force \<or> (\<exists>cf. fs w csv = Some cf \<and> mtime cf < mtime hf))"
    by (cases "fs w csv") auto
  have first: "proceeds w ?r \<longleftrightarrow>
            fs w csv = None \<or> force \<or> (\<exists>cf. fs w csv = Some cf \<and> mtime cf < mtime hf)"
    using p_skip p_go cond by blast
  have second: "\<exists>cf. fs (snd ?r) csv = Some cf \<and> mtime cf = mtime hf"
    if "proceeds w ?r" and "fst ?r = Inr True"
  proof -
    from that(1) p_skip have ns: "\<not> ?skip" by blast
    obtain res w2 where x: "?x = (res, w2)" by (cases ?x)
    with go [OF ns] that(2) have "res = Inr True" and "snd ?r = w2"
      by (cases res; simp)+
    with x extract_and_write_success [of L html csv json "mtime hf" _ w2]
    show ?thesis by simp
  qed
  from first second show ?thesis by blast
qed

theorem staleness_gate_witness:
  "fs sample_world ''html/MLB-schedule.shtml'' = Some \<lparr>mtime = 200, data = ''html''\<rparr> \<and>
   fromtimestamp_ok sample_libs 200 \<and> fromtimestamp_ok sample_libs 100 \<and>
   proceeds sample_world
     (update_csv_from_html sample_libs ''html/MLB-schedule.shtml'' ''games.csv''
        ''games.json'' False sample_world) \<and>
   fst (update_csv_from_html sample_libs ''html/MLB-schedule.shtml'' ''games.csv''
          ''games.json'' False sample_world) = Inr True \<and>
   (\<exists>cf. fs (snd (update_csv_from_html sample_libs ''html/MLB-schedule.shtml'' ''games.csv''
                    ''games.json'' False sample_world)) ''games.csv'' = Some cf \<and>
         mtime cf = 200)"
proof -
  have h: "fs sample_world ''html/MLB-schedule.shtml'' = Some \<lparr>mtime = 200, data = ''html''\<rparr>"
    by (simp add: sample_world_def)
  have c: "fs sample_world ''games.csv'' = Some \<lparr>mtime = 100, data = ''old''\<rparr>"
    by (simp add: sample_world_def)
  have ok: "fromtimestamp_ok sample_libs 200" "fromtimestamp_ok sample_libs 100"
    by (simp_all add: sample_libs_def)
  have ok1: "fromtimestamp_ok sample_libs (mtime \<lparr>mtime = 200, data = ''html''\<rparr>)"
    using ok by simp
  have ok2: "fromtimestamp_ok sample_libs
               (case fs sample_world ''games.csv'' of Some cf \<Rightarrow> mtime cf | None \<Rightarrow> 0)"
    using ok c by simp
  have succ: "fst (update_csv_from_html sample_libs ''html/MLB-schedule.shtml'' ''games.csv''
          ''games.json'' False sample_world) = Inr True"
    by code_simp
  from staleness_gate [OF h ok1 ok2, of "''games.json''" False] c succ h ok
  show ?thesis by simp
qed

section \<open>Properties of the day sample\<close>

lemma matching_sections_tier1:
  assumes "3 \<le> length (split_ws (lower target))"
    and "\<forall>sec \<in> set secs.
           rs (target_pattern (split_ws (lower target))) (lower (section_date sec)) \<noteq> None"
  shows "matching_sections rs target secs =
           Inr (filter (\<lambda>sec. rs (target_pattern (split_ws (lower target)))
                               (lower (section_date sec)) = Some True) secs)"
  using assms(2)
proof (induction secs)
  case Nil
  then show ?case by simp
next
  case (Cons sec secs)
  then obtain b where b: "rs (target_pattern (split_ws (lower target)))
                             (lower (section_date sec)) = Some b"
    by auto
  with assms(1) have "section_matches rs target (section_date sec) = Inr b"
    by (simp add: section_matches_def Let_def)
  with Cons b show ?case by simp
qed

lemma matching_sections_tier2:
  assumes "length (split_ws (lower target)) < 3"
  shows "matching_sections rs target secs =
           Inr (filter (\<lambda>sec. contains (lower target) (lower (section_date sec))) secs)"
proof (induction secs)
  case Nil
  then show ?case by simp
next
  case (Cons sec secs)
  from assms have "section_matches rs target (section_date sec) =
                     Inr (contains (lower target) (lower (section_date sec)))"
    by (simp add: section_matches_def Let_def)
  with Cons show ?case by simp
qed

text \<open>
  Claim C5, as stated: for every target date the bounded pattern is tried first, and
  the substring test is used only if the pattern finds no section. The code chooses by
  the number of words in the target instead, and never falls back. With the target
  \<^verbatim>\<open>Monday, August 4, 2025\<close> (four words, all plain) and a section headed by exactly
  that text, the pattern finds nothing, the substring test would succeed, and the
  function reports that the date was not found and returns the empty list.
\<close>

theorem date_tiers_counterexample:
  "map section_date (game_sections (day_section ''Monday, August 4, 2025''))
     = [''Monday, August 4, 2025''] \<and>
   3 \<le> length (split_ws (lower ''Monday, August 4, 2025'')) \<and>
   parse_date_pattern (target_pattern (split_ws (lower ''Monday, August 4, 2025'')))
     = Some (''monday,'', ''august'', ''4,'') \<and>
   search_plain_date (target_pattern (split_ws (lower ''Monday, August 4, 2025'')))
     (lower ''Monday, August 4, 2025'') = Some False \<and>
   contains (lower ''Monday, August 4, 2025'') (lower ''Monday, August 4, 2025'') \<and>
   get_games_for_date search_plain_date 4300 (day_section ''Monday, August 4, 2025'')
     ''Monday, August 4, 2025''
     = Inr ([Date_not_found ''Monday, August 4, 2025'', Available_dates,
             Available_date ''Monday, August 4, 2025''], [])"
  by code_simp

text \<open>
  Claim C5, amended. The loop of lines 124 to 147 chooses its test by the target alone:
  when the target has at least three words separated by white space, every section is
  tested with the bounded pattern of month, day and year and the substring test is not
  used, whatever the pattern finds; when the target has fewer than three words, every
  section is tested for the target as a substring and the pattern is not used.
\<close>

theorem tier_chosen_by_target_shape:
  "(3 \<le> length (split_ws (lower target)) \<and>
    (\<forall>sec \<in> set secs.
       rs (target_pattern (split_ws (lower target))) (lower (section_date sec)) \<noteq> None) \<longrightarrow>
    matching_sections rs target secs =
      Inr (filter (\<lambda>sec. rs (target_pattern (split_ws (lower target)))
                          (lower (section_date sec)) = Some True) secs)) \<and>
   (length (split_ws (lower target)) < 3 \<longrightarrow>
    matching_sections rs target secs =
      Inr (filter (\<lambda>sec. contains (lower target) (lower (section_date sec))) secs))"
  using matching_sections_tier1 matching_sections_tier2 by blast

theorem tier_chosen_by_target_shape_witness:
  "3 \<le> length (split_ws (lower ''August 4, 2025'')) \<and>
   matching_sections search_plain_date ''August 4, 2025''
     (game_sections (day_section ''Monday, August 4, 2025''))
     = Inr (game_sections (day_section ''Monday, August 4, 2025'')) \<and>
   length (split_ws (lower ''August 4'')) < 3 \<and>
   matching_sections search_raises ''August 4''
     (game_sections (day_section ''Monday, August 4, 2025''))
     = Inr (game_sections (day_section ''Monday, August 4, 2025''))"
proof -
  let ?secs = "game_sections (day_section ''Monday, August 4, 2025'')"
  let ?pat = "target_pattern (split_ws (lower ''August 4, 2025''))"
  have a: "3 \<le> length (split_ws (lower ''August 4, 2025''))"
    by code_simp
  have b: "list_all (\<lambda>sec. search_plain_date ?pat (lower (section_date sec)) \<noteq> None) ?secs"
    by code_simp
  have c: "filter (\<lambda>sec. search_plain_date ?pat (lower (section_date sec)) = Some True) ?secs
             = ?secs"
    by code_simp
  have d: "length (split_ws (lower ''August 4'')) < 3"
    by code_simp
  have e: "filter (\<lambda>sec. contains (lower ''August 4'') (lower (section_date sec))) ?secs = ?secs"
    by code_simp
  from b have b': "\<forall>sec \<in> set ?secs.
                     search_plain_date ?pat (lower (section_date sec)) \<noteq> None"
    by (simp add: list_all_iff)
  from tier_chosen_by_target_shape [of "''August 4, 2025''" ?secs search_plain_date] a b' c
  have one: "matching_sections search_plain_date ''August 4, 2025'' ?secs = Inr ?secs"
    by simp
  from tier_chosen_by_target_shape [of "''August 4''" ?secs search_raises] d e
  have two: "matching_sections search_raises ''August 4'' ?secs = Inr ?secs"
    by simp
  from a d one two show ?thesis by simp
qed

text \<open>
  What follows the loop is another matter. With a target of fewer than three words line
  140 never runs, so a section that the substring test selects takes the function to
  line 185 with \<open>re\<close> unbound: the call raises instead of returning the day. With
  three words the same section is returned.
\<close>

lemma short_target_raises:
  "get_games_for_date search_raises 4300 (day_section ''Monday, August 4, 2025'') ''August 4''
     = Inl Unbound_local_error"
  by code_simp

lemma long_target_returns:
  "(case get_games_for_date search_plain_date 4300 (day_section ''Monday, August 4, 2025'')
           ''August 4, 2025''
    of Inl e \<Rightarrow> None | Inr r \<Rightarrow> Some (fst r, map day_date (snd r)))
     = Some ([], [''Monday, August 4, 2025''])"
  by code_simp

section \<open>Properties of the team codes\<close>

lemma foldl_upd_map_of:
  "foldl (\<lambda>m kv. m(fst kv \<mapsto> snd kv)) m xs = m ++ map_of (rev xs)"
  by (induction xs arbitrary: m)
     (simp_all add: map_of_append map_add_assoc [symmetric] del: fun_upd_apply)

lemma team_code_keys_distinct: "distinct (map fst team_code_items)"
  by (simp add: team_code_items_def)

lemma map_of_rev_distinct:
  assumes "distinct (map fst xs)"
  shows "map_of (rev xs) = map_of xs"
proof
  fix k
  show "map_of (rev xs) k = map_of xs k"
  proof (cases "map_of xs k")
    case None
    then have "k \<notin> fst ` set (rev xs)"
      by (simp add: map_of_eq_None_iff)
    then have "map_of (rev xs) k = None"
      by (simp add: map_of_eq_None_iff)
    with None show ?thesis by simp
  next
    case (Some v)
    then have "(k, v) \<in> set (rev xs)"
      by (auto dest: map_of_SomeD)
    moreover have "distinct (map fst (rev xs))"
      using assms by (simp add: rev_map [symmetric])
    ultimately have "map_of (rev xs) k = Some v"
      by (rule map_of_is_SomeI [rotated])
    with Some show ?thesis by simp
  qed
qed

lemma TEAM_CODE_MAP_items: "TEAM_CODE_MAP = map_of team_code_items"
  by (simp add: TEAM_CODE_MAP_def foldl_upd_map_of
        map_of_rev_distinct [OF team_code_keys_distinct])

text \<open>
  Claim C8. The odds extractor maps a team's display name to the code that the fixed
  table lists for it, in particular \<^verbatim>\<open>Arizona Diamondbacks\<close> to \<^verbatim>\<open>ARI\<close>, and
  returns a name that the table does not list unchanged.
\<close>

theorem team_code_lookup:
  "((name, code) \<in> set team_code_items \<longrightarrow> team_code name = code) \<and>
   (name \<notin> fst ` set team_code_items \<longrightarrow> team_code name = name) \<and>
   team_code ''Arizona Diamondbacks'' = ''ARI''"
proof (intro conjI impI)
  assume "(name, code) \<in> set team_code_items"
  then have "map_of team_code_items name = Some code"
    using team_code_keys_distinct by simp
  then show "team_code name = code"
    by (simp add: team_code_def TEAM_CODE_MAP_items)
next
  assume "name \<notin> fst ` set team_code_items"
  then have "map_of team_code_items name = None"
    by (simp add: map_of_eq_None_iff)
  then show "team_code name = name"
    by (simp add: team_code_def TEAM_CODE_MAP_items)
next
  show "team_code ''Arizona Diamondbacks'' = ''ARI''"
    by (simp add: team_code_def TEAM_CODE_MAP_items team_code_items_def)
qed

theorem team_code_lookup_witness:
  "(''Mets'', ''NYM'') \<in> set team_code_items \<and> team_code ''Mets'' = ''NYM'' \<and>
   ''Montreal Expos'' \<notin> fst ` set team_code_items \<and>
   team_code ''Montreal Expos'' = ''Montreal Expos''"
proof -
  have a: "(''Mets'', ''NYM'') \<in> set team_code_items"
    by (simp add: team_code_items_def)
  have b: "''Montreal Expos'' \<notin> fst ` set team_code_items"
    by (simp add: team_code_items_def)
  from a b team_code_lookup [of "''Mets''" "''NYM''"]
    team_code_lookup [of "''Montreal Expos''" "''NYM''"]
  show ?thesis by blast
qed

end
